theory Spec2Isabelle
  imports Complex_Main "HOL-Library.Word" "HOL-Library.Multiset"
begin

unbundle bit_operations_syntax

section \<open>Occupancy grid generation (src/src/OccupancyGridGenerator.js)\<close>

text \<open>
  A shallow embedding of \<^verbatim>\<open>OccupancyGridGenerator.js\<close>. JavaScript numbers are IEEE
  doubles; the embedding idealises them: coordinates and sizes are \<^typ>\<open>real\<close> (exact
  arithmetic, no rounding, no NaN, no infinities), grid indices and dimensions are
  \<^typ>\<open>int\<close>, array lengths are \<^typ>\<open>nat\<close>, and the cells of a \<^verbatim>\<open>Uint8Array\<close> are
  8-bit words. The places where the code relies on a non-finite value (an empty
  argument list of \<^verbatim>\<open>Math.min\<close>, an \<^verbatim>\<open>undefined\<close> bound) are written out as
  separate branches. The embedding is meant for \<open>resolution > 0\<close>, the invariant of the
  map metadata; with \<open>resolution = 0\<close> the code divides by zero and leaves the finite
  numbers.
\<close>

subsection \<open>Data model\<close>

type_synonym u8 = "8 word"

text \<open>A two-element array \<^verbatim>\<open>[x, y]\<close>, and also the point object \<^verbatim>\<open>{x, y}\<close>.\<close>

type_synonym vec2 = "real \<times> real"

record mapInfo =
  name :: string
  resolution :: real
  width :: real
  height :: real
  origin :: vec2

text \<open>
  A shape object. The code dispatches on the string \<^verbatim>\<open>shape.type\<close> and reads only the
  fields of that variant; \<^verbatim>\<open>rotation\<close> may be absent (\<^verbatim>\<open>shape.rotation || 0\<close>).
\<close>

record shape =
  shape_type :: string
  center :: vec2
  radius :: real
  width :: real
  height :: real
  rotation :: "real option"
  vertices :: "vec2 list"

text \<open>A map object; the rasterizer reads only \<^verbatim>\<open>obj.type\<close> and \<^verbatim>\<open>obj.shape\<close>.\<close>

record mapObject =
  obj_type :: string
  obj_shape :: shape

datatype error = RangeError

subsection \<open>Typed arrays\<close>

text \<open>
  \<^verbatim>\<open>new Uint8Array(n)\<close> for an integer \<open>n\<close>: a negative length throws a
  \<^verbatim>\<open>RangeError\<close>, otherwise the array holds \<open>n\<close> zero bytes. (An engine also throws
  above its own maximal length; lists have no such limit.)
\<close>

definition newUint8Array :: "int \<Rightarrow> error + u8 list" where
  "newUint8Array n = (if n < 0 then Inl RangeError else Inr (replicate (nat n) 0))"

text \<open>
  \<^verbatim>\<open>a[i] = v\<close> on a typed array: a write outside \<open>[0, length)\<close> is ignored.
\<close>

definition u8_store :: "u8 list \<Rightarrow> int \<Rightarrow> u8 \<Rightarrow> u8 list" where
  "u8_store a i v = (if 0 \<le> i \<and> i < int (length a) then a[nat i := v] else a)"

text \<open>
  \<^verbatim>\<open>a[i]\<close> read from a typed array and stored into another \<^verbatim>\<open>Uint8Array\<close>: a read
  outside \<open>[0, length)\<close> gives \<^verbatim>\<open>undefined\<close>, which the store converts to \<open>0\<close>.
\<close>

definition u8_load :: "u8 list \<Rightarrow> int \<Rightarrow> u8" where
  "u8_load a i = (if 0 \<le> i \<and> i < int (length a) then a ! nat i else 0)"

subsection \<open>Helpers of generateOccupancyGrid\<close>

definition worldToGrid :: "mapInfo \<Rightarrow> real \<Rightarrow> real \<Rightarrow> int \<times> int" where
  "worldToGrid mi worldX worldY =
     (let gridX = \<lfloor>(worldX - fst (origin mi)) / resolution mi\<rfloor>;
          gridY = \<lfloor>(worldY - snd (origin mi)) / resolution mi\<rfloor>
      in (gridX, gridY))"

text \<open>
  The closure \<^verbatim>\<open>setGridCell\<close> captures \<^verbatim>\<open>grid\<close>, \<^verbatim>\<open>gridWidth\<close> and
  \<^verbatim>\<open>gridHeight\<close>; here they are arguments and the updated grid is returned.
\<close>

definition setGridCell :: "int \<Rightarrow> int \<Rightarrow> u8 list \<Rightarrow> int \<Rightarrow> int \<Rightarrow> u8 \<Rightarrow> u8 list" where
  "setGridCell gridWidth gridHeight grid gridX gridY v =
     (if gridX \<ge> 0 \<and> gridX < gridWidth \<and> gridY \<ge> 0 \<and> gridY < gridHeight
      then (let index = gridY * gridWidth + gridX in u8_store grid index v)
      else grid)"

text \<open>
  The even-odd loop \<^verbatim>\<open>for (let i = 0, j = vertices.length - 1; i < vertices.length; j = i++)\<close>.
  With no vertex the body never runs, so the start value of \<open>j\<close> (\<open>-1\<close> in the code) is
  never used as an index. The right conjunct of \<^verbatim>\<open>intersect\<close> is evaluated by the code
  only when the left one holds, and then \<open>yj \<noteq> yi\<close>.
\<close>

function polygonLoop :: "vec2 \<Rightarrow> vec2 list \<Rightarrow> nat \<Rightarrow> nat \<Rightarrow> bool \<Rightarrow> bool" where
  "polygonLoop p vs i j inside =
     (if i < length vs then
        (let xi = fst (vs ! i); yi = snd (vs ! i);
             xj = fst (vs ! j); yj = snd (vs ! j);
             intersect = (((yi > snd p) \<noteq> (yj > snd p)) \<and>
                          (fst p < (xj - xi) * (snd p - yi) / (yj - yi) + xi))
         in polygonLoop p vs (i + 1) i (if intersect then \<not> inside else inside))
      else inside)"
  by pat_completeness auto
termination
  by (relation "measure (\<lambda>(p, vs, i, j, inside). length vs - i)") auto

declare polygonLoop.simps [simp del]

definition isPointInShape :: "vec2 \<Rightarrow> shape \<Rightarrow> bool" where
  "isPointInShape p s =
     (if shape_type s = ''circle'' then
        (let dx = fst p - fst (center s);
             dy = snd p - snd (center s)
         in sqrt (dx * dx + dy * dy) \<le> radius s)
      else if shape_type s = ''rectangle'' then
        (let angle = - (case rotation s of None \<Rightarrow> 0 | Some r \<Rightarrow> r);
             c = cos angle;
             sn = sin angle;
             dx = fst p - fst (center s);
             dy = snd p - snd (center s);
             rotX = dx * c - dy * sn;
             rotY = dx * sn + dy * c
         in \<bar>rotX\<bar> \<le> shape.width s / 2 \<and> \<bar>rotY\<bar> \<le> shape.height s / 2)
      else if shape_type s = ''polygon'' \<or> shape_type s = ''triangle'' then
        polygonLoop p (vertices s) 0 (length (vertices s) - 1) False
      else False)"

text \<open>
  The bounding box computed at the head of the \<^verbatim>\<open>forEach\<close> callback, as
  \<open>(minX, maxX, minY, maxY)\<close>. \<open>None\<close> stands for the two cases in which the code's
  bounds are not finite numbers and its loops over the box run zero times (for
  \<open>resolution > 0\<close>): an unknown shape type leaves the four bounds \<^verbatim>\<open>undefined\<close>, so the
  grid bounds are NaN; an empty vertex list gives \<^verbatim>\<open>Math.min() = Infinity\<close> and
  \<^verbatim>\<open>Math.max() = -Infinity\<close>, so the lower grid bound is above the upper one.
\<close>

definition boundingBox :: "shape \<Rightarrow> (real \<times> real \<times> real \<times> real) option" where
  "boundingBox s =
     (if shape_type s = ''circle'' then
        Some (fst (center s) - radius s, fst (center s) + radius s,
              snd (center s) - radius s, snd (center s) + radius s)
      else if shape_type s = ''rectangle'' then
        (let corners = [(- shape.width s / 2, - shape.height s / 2),
                        (shape.width s / 2, - shape.height s / 2),
                        (shape.width s / 2, shape.height s / 2),
                        (- shape.width s / 2, shape.height s / 2)];
             angle = - (case rotation s of None \<Rightarrow> 0 | Some r \<Rightarrow> r);
             c = cos angle;
             sn = sin angle;
             transformedCorners =
               map (\<lambda>(x, y). (let rotX = x * c - y * sn; rotY = x * sn + y * c
                               in (fst (center s) + rotX, snd (center s) + rotY))) corners
         in Some (Min (set (map fst transformedCorners)), Max (set (map fst transformedCorners)),
                  Min (set (map snd transformedCorners)), Max (set (map snd transformedCorners))))
      else if shape_type s = ''polygon'' \<or> shape_type s = ''triangle'' then
        (if vertices s = [] then None
         else Some (Min (set (map fst (vertices s))), Max (set (map fst (vertices s))),
                    Min (set (map snd (vertices s))), Max (set (map snd (vertices s)))))
      else None)"

text \<open>The world coordinates of the centre of grid cell \<open>(gx, gy)\<close> (lines 127-128).\<close>

definition cellCenter :: "mapInfo \<Rightarrow> int \<Rightarrow> int \<Rightarrow> vec2" where
  "cellCenter mi gx gy =
     (let worldX = fst (origin mi) + (real_of_int gx + 0.5) * resolution mi;
          worldY = snd (origin mi) + (real_of_int gy + 0.5) * resolution mi
      in (worldX, worldY))"

text \<open>
  The body of the \<^verbatim>\<open>objects.forEach\<close> callback: skip robots and landmarks, compute the
  bounding box, and scan the grid cells of the box row by row.
\<close>

definition rasterizeObject :: "mapInfo \<Rightarrow> int \<Rightarrow> int \<Rightarrow> u8 list \<Rightarrow> mapObject \<Rightarrow> u8 list" where
  "rasterizeObject mi gridWidth gridHeight grid obj =
     (if obj_type obj = ''robot'' \<or> obj_type obj = ''landmark'' then grid
      else
        (let s = obj_shape obj in
         case boundingBox s of
           None \<Rightarrow> grid
         | Some (minX, maxX, minY, maxY) \<Rightarrow>
             (let minGrid = worldToGrid mi minX minY;
                  maxGrid = worldToGrid mi maxX maxY
              in fold (\<lambda>gy g.
                   fold (\<lambda>gx g'.
                     if isPointInShape (cellCenter mi gx gy) s
                     then setGridCell gridWidth gridHeight g' gx gy 0
                     else g')
                     [fst minGrid..fst maxGrid] g)
                   [snd minGrid..snd maxGrid] grid)))"

text \<open>
  Lines 12-136 of \<^verbatim>\<open>generateOccupancyGrid\<close>: the grid dimensions, the allocation of
  the grid filled with 254, and the rasterization of every object. The result is the
  local \<^verbatim>\<open>grid\<close> that the encoders receive.
\<close>

definition gridWidthOf :: "mapInfo \<Rightarrow> int" where
  "gridWidthOf mi = \<lceil>mapInfo.width mi / resolution mi\<rceil>"

definition gridHeightOf :: "mapInfo \<Rightarrow> int" where
  "gridHeightOf mi = \<lceil>mapInfo.height mi / resolution mi\<rceil>"

definition rasterize :: "mapInfo \<Rightarrow> mapObject list \<Rightarrow> error + u8 list" where
  "rasterize mi objects =
     (let gridWidth = gridWidthOf mi;
          gridHeight = gridHeightOf mi
      in case newUint8Array (gridWidth * gridHeight) of
           Inl e \<Rightarrow> Inl e
         | Inr a \<Rightarrow>
             Inr (fold (\<lambda>obj g. rasterizeObject mi gridWidth gridHeight g obj) objects
                    (map (\<lambda>_. 254) a)))"

subsection \<open>Strings and bytes\<close>

text \<open>
  The template-literal conversion \<^verbatim>\<open>${n}\<close> of an integer-valued number: plain decimal
  digits, with a minus sign for a negative value. JavaScript prints an integer like
  this as long as its magnitude is below \<open>10^21\<close>.
\<close>

function decimalDigits :: "nat \<Rightarrow> string" where
  "decimalDigits n =
     (if n < 10 then [''0123456789'' ! n]
      else decimalDigits (n div 10) @ [''0123456789'' ! (n mod 10)])"
  by pat_completeness auto
termination
  by (relation "measure id") auto

declare decimalDigits.simps [simp del]

definition numberToString :: "int \<Rightarrow> string" where
  "numberToString n = (if n < 0 then CHR ''-'' # decimalDigits (nat (- n)) else decimalDigits (nat n))"

text \<open>\<^verbatim>\<open>new TextEncoder().encode(s)\<close> on an ASCII string: one byte per character.\<close>

definition textEncode :: "string \<Rightarrow> u8 list" where
  "textEncode s = map (\<lambda>c. word_of_nat (of_char c)) s"

definition newline :: char where
  "newline = CHR 0x0A"

subsection \<open>generatePGM\<close>

definition generatePGM :: "u8 list \<Rightarrow> int \<Rightarrow> int \<Rightarrow> error + u8 list" where
  "generatePGM grid w h =
     (let header = ''P5'' @ [newline] @ numberToString w @ '' '' @ numberToString h @ [newline]
                   @ ''255'' @ [newline];
          headerBytes = textEncode header
      in case newUint8Array (w * h) of
           Inl e \<Rightarrow> Inl e
         | Inr pgmGrid0 \<Rightarrow>
             (let pgmGrid =
                    fold (\<lambda>row pg.
                      fold (\<lambda>col pg'.
                        (let srcIndex = row * w + col;
                             dstIndex = (h - 1 - row) * w + col
                         in u8_store pg' dstIndex (u8_load grid srcIndex)))
                        [0..w - 1] pg)
                      [0..h - 1] pgmGrid0
              in Inr (headerBytes @ pgmGrid)))"

subsection \<open>generateYAML\<close>

text \<open>
  The conversion \<^verbatim>\<open>${x}\<close> of an arbitrary number (the resolution and the origin) is the
  runtime's shortest round-trip printing of a double; it is the parameter \<open>fmt\<close>.
\<close>

definition generateYAML :: "(real \<Rightarrow> string) \<Rightarrow> mapInfo \<Rightarrow> int \<Rightarrow> int \<Rightarrow> string" where
  "generateYAML fmt mi gridWidth gridHeight =
     ''image: '' @ name mi @ ''.pgm'' @ [newline]
     @ ''resolution: '' @ fmt (resolution mi) @ [newline]
     @ ''origin: ['' @ fmt (fst (origin mi)) @ '', '' @ fmt (snd (origin mi)) @ '', 0.0]'' @ [newline]
     @ ''negate: 0'' @ [newline]
     @ ''occupied_thresh: 0.65'' @ [newline]
     @ ''free_thresh: 0.196'' @ [newline]"

subsection \<open>generateNPY and generatePlannerNPY\<close>

definition generateNPY :: "u8 list \<Rightarrow> int \<Rightarrow> int \<Rightarrow> u8 list" where
  "generateNPY grid w h =
     (let magic = [0x93, 0x4E, 0x55, 0x4D, 0x50, 0x59];
          version = [0x01, 0x00];
          dtype = [CHR 0x27] @ ''<u1'' @ [CHR 0x27];
          fortranOrder = ''False'';
          shp = ''('' @ numberToString h @ '', '' @ numberToString w @ '')'';
          headerDict = ''{'descr': '' @ dtype @ '', 'fortran_order': '' @ fortranOrder
                       @ '', 'shape': '' @ shp @ '', }'';
          headerDictBytes = textEncode headerDict;
          totalHeaderSize = 10 + length headerDictBytes;
          paddingSize = (64 - (totalHeaderSize mod 64)) mod 64;
          headerDict' = headerDict
                        @ replicate (if paddingSize > 0 then paddingSize - 1 else 0) (CHR '' '')
                        @ [newline];
          finalHeaderBytes = textEncode headerDict';
          headerLen = length finalHeaderBytes;
          headerLenBytes = [word_of_nat (headerLen AND 0xFF),
                            word_of_nat ((drop_bit 8 headerLen) AND 0xFF)]
      in magic @ version @ headerLenBytes @ finalHeaderBytes @ grid)"

text \<open>
  The loop \<^verbatim>\<open>for (let i = 0; i < grid.length; i++)\<close> writes \<^verbatim>\<open>plannerGrid[i]\<close>; the index
  is always inside \<^verbatim>\<open>grid\<close>, and a write beyond \<^verbatim>\<open>plannerGrid\<close> is ignored.
\<close>

definition generatePlannerNPY :: "u8 list \<Rightarrow> int \<Rightarrow> int \<Rightarrow> error + u8 list" where
  "generatePlannerNPY grid w h =
     (case newUint8Array (w * h) of
        Inl e \<Rightarrow> Inl e
      | Inr plannerGrid0 \<Rightarrow>
          (let plannerGrid =
                 fold (\<lambda>i pg.
                   if grid ! i = 0 then u8_store pg (int i) 1
                   else if grid ! i = 254 then u8_store pg (int i) 0
                   else u8_store pg (int i) 0)
                   [0..<length grid] plannerGrid0
           in Inr (generateNPY plannerGrid w h)))"

subsection \<open>generateOccupancyGrid\<close>

record exportResult =
  pgmData :: "u8 list"
  yamlContent :: string
  plannerNpyData :: "u8 list"
  gridWidth :: int
  gridHeight :: int


section \<open>Reference definitions\<close>

subsection \<open>The even-odd loop as a recursion over the vertex list\<close>



subsection \<open>Rectangle containment in the words of the specification\<close>




subsection \<open>Sample inputs\<close>



subsection \<open>The array header and the lines of the metadata document\<close>

text \<open>
  The header dictionary of the array container before padding: dtype \<^verbatim>\<open>'<u1'\<close>,
  \<^verbatim>\<open>fortran_order\<close> False and shape \<open>(h, w)\<close>.
\<close>

definition npyHeaderDict :: "int \<Rightarrow> int \<Rightarrow> string" where
  "npyHeaderDict w h =
     ''{'descr': '' @ [CHR 0x27] @ ''<u1'' @ [CHR 0x27] @ '', 'fortran_order': False, 'shape': (''
     @ numberToString h @ '', '' @ numberToString w @ ''), }''"

text \<open>
  The lines of a text: \<open>splitLines cur s\<close> cuts \<open>s\<close> at every newline, \<open>cur\<close> being the
  part of the current line read so far.
\<close>

fun splitLines :: "string \<Rightarrow> string \<Rightarrow> string list" where
  "splitLines cur [] = (if cur = [] then [] else [cur])"
| "splitLines cur (c # cs) =
     (if c = newline then cur # splitLines [] cs else splitLines (cur @ [c]) cs)"

subsection \<open>The full-grid scan\<close>



text \<open>
  The flat indices that one object sets to 0: the cells \<open>(gx, gy)\<close> of its bounding-box
  scan (the pair \<open>q\<close> is \<open>(gy, gx)\<close>) that pass the containment test and the bounds check of
  \<^verbatim>\<open>setGridCell\<close>. It does not depend on the contents of the grid.
\<close>

definition marks :: "mapInfo \<Rightarrow> int \<Rightarrow> int \<Rightarrow> mapObject \<Rightarrow> nat \<Rightarrow> bool" where
  "marks mi gw gh obj k =
     (obj_type obj \<noteq> ''robot'' \<and> obj_type obj \<noteq> ''landmark'' \<and>
      (case boundingBox (obj_shape obj) of
         None \<Rightarrow> False
       | Some (minX, maxX, minY, maxY) \<Rightarrow>
           (\<exists>q \<in> set (List.product
                    [snd (worldToGrid mi minX minY)..snd (worldToGrid mi maxX maxY)]
                    [fst (worldToGrid mi minX minY)..fst (worldToGrid mi maxX maxY)]).
              (isPointInShape (cellCenter mi (snd q) (fst q)) (obj_shape obj)
               \<and> 0 \<le> snd q \<and> snd q < gw \<and> 0 \<le> fst q \<and> fst q < gh)
              \<and> fst q * gw + snd q = int k)))"

subsection \<open>A sample map\<close>

text \<open>
  A map of 2 by 2 cells of one metre, and a square of side 2 centred on the corner
  \<open>(0, 0)\<close> of the map: three quarters of the square and of its bounding box lie
  outside the map, and only the cell \<open>(0, 0)\<close> has its centre in the square.
\<close>

definition cornerMap :: mapInfo where
  "cornerMap = \<lparr>name = ''corner'', resolution = 1, width = 2, height = 2, origin = (0, 0)\<rparr>"

definition cornerSquare :: shape where
  "cornerSquare =
     \<lparr>shape_type = ''rectangle'', center = (0, 0), radius = 0, width = 2, height = 2,
      rotation = None, vertices = []\<rparr>"

definition cornerWall :: mapObject where
  "cornerWall = \<lparr>obj_type = ''wall'', obj_shape = cornerSquare\<rparr>"

definition cornerRobot :: mapObject where
  "cornerRobot = \<lparr>obj_type = ''robot'', obj_shape = cornerSquare\<rparr>"

section \<open>Verification\<close>

subsection \<open>The even-odd loop\<close>





subsection \<open>C10: polygons and triangles with fewer than three vertices\<close>



subsection \<open>C4: rectangle containment\<close>



subsection \<open>Typed-array stores in a loop\<close>

lemma length_u8_store [simp]: "length (u8_store a i v) = length a"
  by (simp add: u8_store_def)

lemma nth_u8_store: "k < length a \<Longrightarrow> u8_store a i v ! k = (if i = int k then v else a ! k)"
  by (auto simp: u8_store_def nth_list_update)

lemma fold_store_length [simp]:
  "length (fold (\<lambda>q g. if P q then u8_store g (idx q) (val q) else g) ps g) = length g"
  by (induction ps arbitrary: g) auto

lemma fold_store_nth:
  assumes "k < length g"
    and "\<And>q. q \<in> set ps \<Longrightarrow> P q \<Longrightarrow> idx q = int k \<Longrightarrow> val q = v"
  shows "fold (\<lambda>q g. if P q then u8_store g (idx q) (val q) else g) ps g ! k =
           (if \<exists>q\<in>set ps. P q \<and> idx q = int k then v else g ! k)"
  using assms
proof (induction ps arbitrary: g)
  case Nil
  then show ?case by simp
next
  case (Cons q ps)
  let ?g' = "if P q then u8_store g (idx q) (val q) else g"
  have len: "k < length ?g'" using Cons.prems(1) by simp
  have IH: "fold (\<lambda>q g. if P q then u8_store g (idx q) (val q) else g) ps ?g' ! k =
           (if \<exists>q\<in>set ps. P q \<and> idx q = int k then v else ?g' ! k)"
    by (rule Cons.IH [OF len]) (use Cons.prems(2) in auto)
  have hd: "?g' ! k = (if P q \<and> idx q = int k then v else g ! k)"
    using Cons.prems by (auto simp: nth_u8_store)
  show ?case
    using IH hd by auto
qed

lemma fold_nested_product:
  "fold (\<lambda>y g. fold (\<lambda>x g'. F x y g') xs g) ys g0 =
     fold (\<lambda>(y, x) g. F x y g) (List.product ys xs) g0"
proof (induction ys arbitrary: g0)
  case Nil
  then show ?case by simp
next
  case (Cons y ys)
  have "fold (\<lambda>(y, x). F x y) (map (Pair y) xs) g0 = fold (\<lambda>x. F x y) xs g0"
    by (simp add: fold_map comp_def)
  then show ?case by (simp add: Cons.IH)
qed

subsection \<open>Decimal digits\<close>

lemma length_decimalDigits: "n < 10 ^ Suc k \<Longrightarrow> length (decimalDigits n) \<le> Suc k"
proof (induction k arbitrary: n)
  case 0
  then show ?case by (subst decimalDigits.simps) simp
next
  case (Suc k)
  show ?case
  proof (cases "n < 10")
    case True
    then show ?thesis by (subst decimalDigits.simps) simp
  next
    case False
    from Suc.prems have "n div 10 < 10 ^ Suc k" by (simp add: less_mult_imp_div_less mult.commute)
    from Suc.IH [OF this] False show ?thesis
      by (subst decimalDigits.simps) simp
  qed
qed

lemma length_decimalDigits_pos: "0 < length (decimalDigits n)"
  by (subst decimalDigits.simps) simp

lemma length_numberToString:
  "0 \<le> n \<Longrightarrow> n < 10 ^ 21 \<Longrightarrow> 1 \<le> length (numberToString n) \<and> length (numberToString n) \<le> 21"
proof -
  assume a: "0 \<le> n" "n < 10 ^ 21"
  then have "nat n < 10 ^ Suc 20" by (simp add: nat_less_iff)
  from length_decimalDigits [OF this] length_decimalDigits_pos [of "nat n"] a show ?thesis
    by (auto simp: numberToString_def Suc_le_eq)
qed

lemma length_numberToString_signed:
  assumes "\<bar>n\<bar> < 10 ^ 21"
  shows "1 \<le> length (numberToString n) \<and> length (numberToString n) \<le> 22"
proof (cases "0 \<le> n")
  case True
  with assms length_numberToString [of n] show ?thesis by simp
next
  case False
  with assms have "nat (- n) < 10 ^ Suc 20" by (simp add: nat_less_iff)
  from length_decimalDigits [OF this] False show ?thesis
    by (simp add: numberToString_def)
qed

subsection \<open>C6: the array container\<close>

lemma length_npyHeaderDict:
  "length (npyHeaderDict w h) = 57 + length (numberToString h) + length (numberToString w)"
  by (simp add: npyHeaderDict_def)

lemma length_textEncode [simp]: "length (textEncode s) = length s"
  by (simp add: textEncode_def)

lemma generateNPY_unfold:
  "generateNPY grid w h =
     (let d = npyHeaderDict w h;
          paddingSize = (64 - ((10 + length d) mod 64)) mod 64;
          header = d @ replicate (if paddingSize > 0 then paddingSize - 1 else 0) (CHR '' '') @ [newline]
      in [0x93, 0x4E, 0x55, 0x4D, 0x50, 0x59] @ [0x01, 0x00]
         @ [word_of_nat (length header AND 0xFF), word_of_nat ((drop_bit 8 (length header)) AND 0xFF)]
         @ textEncode header @ grid)"
  by (simp add: generateNPY_def npyHeaderDict_def Let_def)

lemma generateNPY_data: "generateNPY grid w h = generateNPY [] w h @ grid"
  by (simp add: generateNPY_unfold Let_def)

lemma pad_calc:
  fixes L :: nat
  assumes "59 \<le> L" "L \<le> 101"
  shows "(64 - ((10 + L) mod 64)) mod 64 = 118 - L"
proof -
  have "(10 + L) mod 64 = (10 + L - 64) mod 64"
    using assms by (simp add: le_mod_geq)
  also have "\<dots> = L - 54"
    using assms by simp
  finally have "(10 + L) mod 64 = L - 54" .
  then show ?thesis using assms by simp
qed

lemma header_length_bytes:
  "unat (word_of_nat ((118::nat) AND 0xFF) :: u8)
   + 256 * unat (word_of_nat (drop_bit 8 (118::nat) AND 0xFF) :: u8) = (118::nat)"
  by simp

text \<open>
  C6. For every width and height (of magnitude below \<open>10^21\<close>, where the runtime prints
  an integer as plain decimal digits), the output of the array encoder is the 6-byte
  magic (the byte 0x93 and the letters \<^verbatim>\<open>NUMPY\<close>), the version bytes 01 00, two
  bytes that hold the header length in little-endian order, the header (the
  dictionary text, then spaces, then a newline) and then the data bytes; the length
  of everything before the data is a multiple of 64.
\<close>

theorem npy_layout:
  assumes "\<bar>w\<bar> < 10 ^ 21" and "\<bar>h\<bar> < 10 ^ 21"
  shows "\<exists>b0 b1 pad header.
           generateNPY grid w h =
             [0x93, 0x4E, 0x55, 0x4D, 0x50, 0x59] @ [0x01, 0x00] @ [b0, b1] @ textEncode header @ grid
           \<and> header = npyHeaderDict w h @ replicate pad (CHR '' '') @ [newline]
           \<and> unat b0 + 256 * unat b1 = length (textEncode header)
           \<and> (6 + 2 + 2 + length (textEncode header)) mod 64 = 0"
proof -
  define d where "d = npyHeaderDict w h"
  define paddingSize where "paddingSize = (64 - ((10 + length d) mod 64)) mod 64"
  define pad where "pad = (if paddingSize > 0 then paddingSize - 1 else 0)"
  define header where "header = d @ replicate pad (CHR '' '') @ [newline]"
  from length_numberToString_signed [OF assms(1)] length_numberToString_signed [OF assms(2)]
  have len: "59 \<le> length d" "length d \<le> 101"
    by (simp_all add: d_def length_npyHeaderDict)
  have ps: "paddingSize = 118 - length d"
    unfolding paddingSize_def by (rule pad_calc [OF len])
  with len have "pad = 117 - length d"
    by (simp add: pad_def)
  with len have hl: "length header = 118"
    by (simp add: header_def)
  have gen: "generateNPY grid w h =
      [0x93, 0x4E, 0x55, 0x4D, 0x50, 0x59] @ [0x01, 0x00]
      @ [word_of_nat (length header AND 0xFF), word_of_nat ((drop_bit 8 (length header)) AND 0xFF)]
      @ textEncode header @ grid"
    unfolding generateNPY_unfold Let_def header_def pad_def paddingSize_def d_def by (rule refl)
  have h2: "header = npyHeaderDict w h @ replicate pad (CHR '' '') @ [newline]"
    by (simp add: header_def d_def)
  have b: "unat (word_of_nat (length header AND 0xFF) :: u8)
           + 256 * unat (word_of_nat (drop_bit 8 (length header) AND 0xFF) :: u8)
         = length (textEncode header)"
    unfolding length_textEncode hl by (rule header_length_bytes)
  have m: "(6 + 2 + 2 + length (textEncode header)) mod 64 = 0"
    unfolding length_textEncode hl by simp
  show ?thesis
    by (intro exI conjI) (rule gen, rule h2, rule b, rule m)
qed

theorem npy_layout_witness:
  "\<bar>200::int\<bar> < 10 ^ 21 \<and> \<bar>200::int\<bar> < 10 ^ 21
   \<and> (\<exists>b0 b1 pad header.
           generateNPY [1, 0] 200 200 =
             [0x93, 0x4E, 0x55, 0x4D, 0x50, 0x59] @ [0x01, 0x00] @ [b0, b1] @ textEncode header @ [1, 0]
           \<and> header = npyHeaderDict 200 200 @ replicate pad (CHR '' '') @ [newline]
           \<and> unat b0 + 256 * unat b1 = length (textEncode header)
           \<and> (6 + 2 + 2 + length (textEncode header)) mod 64 = 0)"
proof -
  have h: "\<bar>200::int\<bar> < 10 ^ 21" by simp
  show ?thesis
    by (intro conjI) (rule h, rule h, rule npy_layout [OF h h])
qed

subsection \<open>C7: the planner flavour of the array\<close>

lemma plannerGrid_eq:
  assumes "length pg0 = length grid"
  shows "fold (\<lambda>i pg.
           if grid ! i = 0 then u8_store pg (int i) 1
           else if grid ! i = 254 then u8_store pg (int i) 0
           else u8_store pg (int i) 0) [0..<length grid] pg0
         = map (\<lambda>v. if v = 0 then 1 else 0) grid"
proof -
  let ?val = "\<lambda>i. if grid ! i = 0 then (1::u8) else 0"
  let ?f = "\<lambda>q g. if True then u8_store g (int q) (?val q) else g"
  have f: "(\<lambda>i pg.
           if grid ! i = 0 then u8_store pg (int i) 1
           else if grid ! i = 254 then u8_store pg (int i) 0
           else u8_store pg (int i) 0) = ?f"
    by (intro ext) simp
  have "fold ?f [0..<length grid] pg0 = map (\<lambda>v. if v = 0 then 1 else 0) grid"
  proof (rule nth_equalityI)
    show "length (fold ?f [0..<length grid] pg0) = length (map (\<lambda>v. if v = 0 then 1 else 0) grid)"
      using assms by (simp only: fold_store_length length_map)
  next
    fix k
    assume "k < length (fold ?f [0..<length grid] pg0)"
    then have k: "k < length grid" using assms by (simp only: fold_store_length)
    then have k0: "k < length pg0" using assms by simp
    have "fold ?f [0..<length grid] pg0 ! k =
        (if \<exists>q\<in>set [0..<length grid]. True \<and> int q = int k then ?val k else pg0 ! k)"
      by (rule fold_store_nth [OF k0]) simp
    with k show "fold ?f [0..<length grid] pg0 ! k = map (\<lambda>v. if v = 0 then 1 else 0) grid ! k"
      by auto
  qed
  then show ?thesis by (simp only: f)
qed

text \<open>
  C7. For every grid of \<open>w * h\<close> cells the planner encoder emits the preamble of the
  array container followed by one data byte per cell, in the order of the grid (no
  flip): the byte at flat index \<open>i\<close> is 1 when cell \<open>i\<close> is 0 (occupied) and 0 for 254
  and for every other value.
\<close>

theorem planner_remap:
  assumes "0 \<le> w * h" and "length grid = nat (w * h)"
  shows "generatePlannerNPY grid w h =
           Inr (generateNPY [] w h @ map (\<lambda>v. if v = 0 then 1 else 0) grid)
         \<and> (\<forall>out i. generatePlannerNPY grid w h = Inr out \<longrightarrow> i < length grid \<longrightarrow>
               out ! (length (generateNPY [] w h) + i) = (if grid ! i = 0 then 1 else 0))"
proof -
  have "length (replicate (nat (w * h)) (0::u8)) = length grid"
    using assms by simp
  from plannerGrid_eq [OF this] assms(1)
  have "generatePlannerNPY grid w h = Inr (generateNPY (map (\<lambda>v. if v = 0 then 1 else 0) grid) w h)"
    by (simp add: generatePlannerNPY_def newUint8Array_def)
  then have eq: "generatePlannerNPY grid w h =
           Inr (generateNPY [] w h @ map (\<lambda>v. if v = 0 then 1 else 0) grid)"
    by (subst (asm) generateNPY_data)
  then show ?thesis by (auto simp: nth_append)
qed

theorem planner_remap_witness:
  "(0::int) \<le> 2 * 2 \<and> length [0, 254, 7, 0 :: u8] = nat (2 * 2)
   \<and> generatePlannerNPY [0, 254, 7, 0] 2 2 = Inr (generateNPY [] 2 2 @ [1, 0, 0, 1])"
proof -
  have h1: "(0::int) \<le> 2 * 2" by simp
  have h2: "length [0, 254, 7, 0 :: u8] = nat (2 * 2)" by simp
  from planner_remap [OF h1 h2] h1 h2 show ?thesis by simp
qed

subsection \<open>C5: the image encoder\<close>

lemma cell_index_div:
  fixes a c w :: int
  shows "0 \<le> c \<Longrightarrow> c < w \<Longrightarrow> (a * w + c) div w = a"
  by simp

lemma cell_index_unique:
  fixes a b c c' w :: int
  assumes "0 \<le> c" "c < w" "0 \<le> c'" "c' < w" "a * w + c = b * w + c'"
  shows "a = b \<and> c = c'"
proof -
  have "a = (a * w + c) div w" using assms(1,2) by (simp only: cell_index_div)
  also have "\<dots> = (b * w + c') div w" by (simp only: assms(5))
  also have "\<dots> = b" using assms(3,4) by (simp only: cell_index_div)
  finally have "a = b" .
  with assms(5) show ?thesis by simp
qed

lemma cell_index_range:
  fixes r c w h :: int
  assumes "0 \<le> r" "r < h" "0 \<le> c" "c < w"
  shows "0 \<le> r * w + c \<and> r * w + c < w * h"
proof -
  have "0 \<le> r * w" using assms by simp
  moreover have "(r + 1) * w \<le> h * w"
    using assms by (intro mult_right_mono) auto
  ultimately show ?thesis using assms by (simp add: algebra_simps)
qed

lemma pgm_pixels:
  assumes w: "0 \<le> w" and h: "0 \<le> h" and len: "length grid = nat (w * h)"
    and r: "0 \<le> r" "r < h" and c: "0 \<le> c" "c < w"
  shows "fold (\<lambda>row pg.
           fold (\<lambda>col pg'.
             (let srcIndex = row * w + col;
                  dstIndex = (h - 1 - row) * w + col
              in u8_store pg' dstIndex (u8_load grid srcIndex)))
             [0..w - 1] pg)
           [0..h - 1] (replicate (nat (w * h)) 0) ! nat (r * w + c)
         = grid ! nat ((h - 1 - r) * w + c)"
proof -
  let ?idx = "\<lambda>(row, col). (h - 1 - row) * w + col"
  let ?val = "\<lambda>(row, col). u8_load grid (row * w + col)"
  let ?P = "\<lambda>q :: int \<times> int. True"
  let ?f = "\<lambda>q g. if ?P q then u8_store g (?idx q) (?val q) else g"
  let ?ps = "List.product [0..h - 1] [0..w - 1]"
  let ?g0 = "replicate (nat (w * h)) (0::u8)"
  have step: "(\<lambda>(y, x) g. (let srcIndex = y * w + x; dstIndex = (h - 1 - y) * w + x
              in u8_store g dstIndex (u8_load grid srcIndex))) = ?f"
    by (intro ext) (simp add: Let_def split: prod.splits)
  have flat: "fold (\<lambda>row pg.
           fold (\<lambda>col pg'.
             (let srcIndex = row * w + col;
                  dstIndex = (h - 1 - row) * w + col
              in u8_store pg' dstIndex (u8_load grid srcIndex)))
             [0..w - 1] pg)
           [0..h - 1] ?g0 = fold ?f ?ps ?g0"
    by (simp only: fold_nested_product step)
  from cell_index_range [OF r c] have kr: "0 \<le> r * w + c" "r * w + c < w * h" by simp_all
  then have k: "nat (r * w + c) < length ?g0" by simp
  have r': "0 \<le> h - 1 - r" "h - 1 - r < h" using r by simp_all
  from cell_index_range [OF r' c] have sr: "0 \<le> (h - 1 - r) * w + c" "(h - 1 - r) * w + c < w * h"
    by simp_all
  have v: "?val q = grid ! nat ((h - 1 - r) * w + c)"
    if "q \<in> set ?ps" "?P q" "?idx q = int (nat (r * w + c))" for q
  proof -
    obtain row col where q: "q = (row, col)" by (cases q)
    from that(1) q have col: "0 \<le> col" "col < w" by auto
    from that(3) q kr have "(h - 1 - row) * w + col = r * w + c" by simp
    from cell_index_unique [OF col c this] have "row = h - 1 - r" "col = c" by simp_all
    with q sr len show ?thesis by (simp add: u8_load_def)
  qed
  have ex: "\<exists>q\<in>set ?ps. ?P q \<and> ?idx q = int (nat (r * w + c))"
  proof (rule bexI [of _ "(h - 1 - r, c)"])
    show "?P (h - 1 - r, c) \<and> ?idx (h - 1 - r, c) = int (nat (r * w + c))"
      using kr by simp
    show "(h - 1 - r, c) \<in> set ?ps" using r c by simp
  qed
  have "fold ?f ?ps ?g0 ! nat (r * w + c) =
      (if \<exists>q\<in>set ?ps. ?P q \<and> ?idx q = int (nat (r * w + c))
       then grid ! nat ((h - 1 - r) * w + c) else ?g0 ! nat (r * w + c))"
    by (rule fold_store_nth [OF k v])
  with ex have "fold ?f ?ps ?g0 ! nat (r * w + c) = grid ! nat ((h - 1 - r) * w + c)"
    by (simp only: if_True)
  then show ?thesis by (simp only: flat)
qed

text \<open>
  C5. For every grid of \<open>w \<times> h\<close> cells the image encoder emits the bytes of the ASCII
  header (\<^verbatim>\<open>P5\<close>, \<^verbatim>\<open><w> <h>\<close> and \<^verbatim>\<open>255\<close>, each ended by a newline) followed by
  \<open>w * h\<close> pixel bytes; the pixel in row \<open>r\<close> from the top and column \<open>c\<close> is the grid
  cell in row \<open>h - 1 - r\<close> and column \<open>c\<close>, unchanged.
\<close>

theorem pgm_vertical_flip:
  assumes "0 \<le> w" and "0 \<le> h" and "length grid = nat (w * h)"
  shows "\<exists>pixels.
           generatePGM grid w h =
             Inr (textEncode (''P5'' @ [newline] @ numberToString w @ '' '' @ numberToString h
                              @ [newline] @ ''255'' @ [newline]) @ pixels)
           \<and> length pixels = nat (w * h)
           \<and> (\<forall>r c. 0 \<le> r \<and> r < h \<and> 0 \<le> c \<and> c < w \<longrightarrow>
                 pixels ! nat (r * w + c) = grid ! nat ((h - 1 - r) * w + c))"
proof -
  let ?pixels = "fold (\<lambda>row pg.
           fold (\<lambda>col pg'.
             (let srcIndex = row * w + col;
                  dstIndex = (h - 1 - row) * w + col
              in u8_store pg' dstIndex (u8_load grid srcIndex)))
             [0..w - 1] pg)
           [0..h - 1] (replicate (nat (w * h)) 0)"
  have wh: "0 \<le> w * h" using assms by simp
  then have gen: "generatePGM grid w h =
             Inr (textEncode (''P5'' @ [newline] @ numberToString w @ '' '' @ numberToString h
                              @ [newline] @ ''255'' @ [newline]) @ ?pixels)"
    by (simp add: generatePGM_def newUint8Array_def Let_def)
  have "length (fold (\<lambda>q g. if True then u8_store g
            ((\<lambda>(row, col). (h - 1 - row) * w + col) q) ((\<lambda>(row, col). u8_load grid (row * w + col)) q) else g)
          (List.product [0..h - 1] [0..w - 1]) (replicate (nat (w * h)) 0)) = nat (w * h)"
    by (simp only: fold_store_length length_replicate)
  moreover have "(\<lambda>q g. if True then u8_store g
            ((\<lambda>(row, col). (h - 1 - row) * w + col) q) ((\<lambda>(row, col). u8_load grid (row * w + col)) q) else g)
       = (\<lambda>(y, x) g. (let srcIndex = y * w + x; dstIndex = (h - 1 - y) * w + x
              in u8_store g dstIndex (u8_load grid srcIndex)))"
    by (intro ext) (simp add: Let_def split: prod.splits)
  ultimately have len: "length ?pixels = nat (w * h)"
    by (simp only: fold_nested_product)
  show ?thesis
    using gen len pgm_pixels [OF assms] by (intro exI [of _ ?pixels]) blast
qed

theorem pgm_vertical_flip_witness:
  "(0::int) \<le> 3 \<and> (0::int) \<le> 2 \<and> length [1, 2, 3, 4, 5, 6 :: u8] = nat (3 * 2)
   \<and> (\<exists>pixels.
           generatePGM [1, 2, 3, 4, 5, 6] 3 2 =
             Inr (textEncode (''P5'' @ [newline] @ numberToString 3 @ '' '' @ numberToString 2
                              @ [newline] @ ''255'' @ [newline]) @ pixels)
           \<and> length pixels = nat (3 * 2)
           \<and> (\<forall>r c. 0 \<le> r \<and> r < 2 \<and> 0 \<le> c \<and> c < 3 \<longrightarrow>
                 pixels ! nat (r * 3 + c) = [1, 2, 3, 4, 5, 6] ! nat ((2 - 1 - r) * 3 + c)))"
proof -
  have h1: "(0::int) \<le> 3" by simp
  have h2: "(0::int) \<le> 2" by simp
  have h3: "length [1, 2, 3, 4, 5, 6 :: u8] = nat (3 * 2)" by simp
  show ?thesis
    by (intro conjI) (rule h1, rule h2, rule h3, rule pgm_vertical_flip [OF h1 h2 h3])
qed

subsection \<open>C9: the metadata document\<close>

lemma splitLines_append:
  "splitLines cur (xs @ newline # ys) = splitLines cur (xs @ [newline]) @ splitLines [] ys"
  by (induction xs arbitrary: cur) simp_all

lemma splitLines_line:
  "newline \<notin> set s \<Longrightarrow> splitLines cur (s @ [newline]) = [cur @ s]"
  by (induction s arbitrary: cur) auto

lemma splitLines_last_line:
  "newline \<notin> set s \<Longrightarrow> \<exists>front pre. splitLines cur (xs @ s @ [newline]) = front @ [pre @ s]"
proof (induction xs arbitrary: cur)
  case Nil
  then show ?case using splitLines_line [of s cur] by auto
next
  case (Cons c xs)
  show ?case
  proof (cases "c = newline")
    case True
    from Cons.IH [OF Cons.prems, of "[]"] obtain front pre
      where "splitLines [] (xs @ s @ [newline]) = front @ [pre @ s]" by blast
    with True have "splitLines cur ((c # xs) @ s @ [newline]) = (cur # front) @ [pre @ s]"
      by simp
    then show ?thesis by blast
  next
    case False
    with Cons.IH [OF Cons.prems, of "cur @ [c]"] show ?thesis by simp
  qed
qed

lemma newline_code: "newline = CHR 0x0A"
  by (simp add: newline_def)


lemma tl_lines:
  "splitLines [] (''negate: 0'' @ [newline] @ ''occupied_thresh: 0.65'' @ [newline]
                  @ ''free_thresh: 0.196'' @ [newline])
   = [''negate: 0'', ''occupied_thresh: 0.65'', ''free_thresh: 0.196'']"
  by (simp add: newline_code)

text \<open>
  C9. Whatever the map metadata, the grid dimensions and the printing of numbers, the
  metadata document ends with the origin line, a list of three components whose
  third is the literal \<open>0.0\<close>, followed by the lines \<^verbatim>\<open>negate: 0\<close>,
  \<^verbatim>\<open>occupied_thresh: 0.65\<close> and \<^verbatim>\<open>free_thresh: 0.196\<close>; these are its last four lines.
\<close>

theorem yaml_constants:
  "(\<exists>head. generateYAML fmt mi gw gh =
      head @ ''origin: ['' @ fmt (fst (origin mi)) @ '', '' @ fmt (snd (origin mi)) @ '', 0.0]'' @ [newline]
      @ ''negate: 0'' @ [newline] @ ''occupied_thresh: 0.65'' @ [newline] @ ''free_thresh: 0.196'' @ [newline])
   \<and> (\<exists>front pre. splitLines [] (generateYAML fmt mi gw gh) =
         front @ [pre @ '', 0.0]'', ''negate: 0'', ''occupied_thresh: 0.65'', ''free_thresh: 0.196''])"
proof
  define hd where "hd = ''image: '' @ name mi @ ''.pgm'' @ [newline] @ ''resolution: '' @ fmt (resolution mi) @ [newline]"
  define tail where "tail = ''negate: 0'' @ [newline] @ ''occupied_thresh: 0.65'' @ [newline] @ ''free_thresh: 0.196'' @ [newline]"
  define xs where "xs = hd @ ''origin: ['' @ fmt (fst (origin mi)) @ '', '' @ fmt (snd (origin mi))"
  have doc: "generateYAML fmt mi gw gh =
      hd @ ''origin: ['' @ fmt (fst (origin mi)) @ '', '' @ fmt (snd (origin mi)) @ '', 0.0]'' @ [newline] @ tail"
    by (simp add: generateYAML_def hd_def tail_def)
  show "\<exists>head. generateYAML fmt mi gw gh =
      head @ ''origin: ['' @ fmt (fst (origin mi)) @ '', '' @ fmt (snd (origin mi)) @ '', 0.0]'' @ [newline]
      @ ''negate: 0'' @ [newline] @ ''occupied_thresh: 0.65'' @ [newline] @ ''free_thresh: 0.196'' @ [newline]"
    by (rule exI [of _ hd]) (simp add: doc tail_def)
  have doc2: "generateYAML fmt mi gw gh = (xs @ '', 0.0]'') @ newline # tail"
    by (simp add: doc xs_def)
  have "newline \<notin> set '', 0.0]''"
    by (simp add: newline_code)
  from splitLines_last_line [OF this, of "[]" xs] obtain front pre
    where fp: "splitLines [] (xs @ '', 0.0]'' @ [newline]) = front @ [pre @ '', 0.0]'']" by blast
  have "splitLines [] (generateYAML fmt mi gw gh) =
      splitLines [] ((xs @ '', 0.0]'') @ [newline]) @ splitLines [] tail"
    unfolding doc2 by (rule splitLines_append)
  also have "splitLines [] tail = [''negate: 0'', ''occupied_thresh: 0.65'', ''free_thresh: 0.196'']"
    unfolding tail_def by (rule tl_lines)
  also have "splitLines [] ((xs @ '', 0.0]'') @ [newline]) = front @ [pre @ '', 0.0]'']"
    using fp by simp
  finally have "splitLines [] (generateYAML fmt mi gw gh) =
      front @ [pre @ '', 0.0]'', ''negate: 0'', ''occupied_thresh: 0.65'', ''free_thresh: 0.196'']"
    by simp
  then show "\<exists>front pre. splitLines [] (generateYAML fmt mi gw gh) =
         front @ [pre @ '', 0.0]'', ''negate: 0'', ''occupied_thresh: 0.65'', ''free_thresh: 0.196'']"
    by (intro exI [of _ front] exI [of _ pre])
qed

theorem yaml_constants_witness:
  "\<exists>front pre. splitLines [] (generateYAML (\<lambda>x. ''1'') cornerMap 2 2) =
      front @ [pre @ '', 0.0]'', ''negate: 0'', ''occupied_thresh: 0.65'', ''free_thresh: 0.196'']"
  using yaml_constants [of "\<lambda>x. ''1''" cornerMap 2 2] by (rule conjunct2)

subsection \<open>One object, and a list of objects\<close>

lemma rasterizeObject_length [simp]:
  "length (rasterizeObject mi gw gh g obj) = length g"
proof -
  have step: "(\<lambda>(gy, gx) g'. if isPointInShape (cellCenter mi gx gy) s
                 then setGridCell gw gh g' gx gy 0 else g')
      = (\<lambda>q g'. if isPointInShape (cellCenter mi (snd q) (fst q)) s
                     \<and> 0 \<le> snd q \<and> snd q < gw \<and> 0 \<le> fst q \<and> fst q < gh
                  then u8_store g' (fst q * gw + snd q) 0 else g')" for s
    by (intro ext) (auto simp: setGridCell_def Let_def split: prod.splits)
  show ?thesis
    unfolding rasterizeObject_def Let_def fold_nested_product step
    by (simp split: option.splits prod.splits)
qed

lemma rasterizeObject_nth:
  assumes "k < length g"
  shows "rasterizeObject mi gw gh g obj ! k = (if marks mi gw gh obj k then 0 else g ! k)"
proof -
  have step: "(\<lambda>(gy, gx) g'. if isPointInShape (cellCenter mi gx gy) s
                 then setGridCell gw gh g' gx gy 0 else g')
      = (\<lambda>q g'. if isPointInShape (cellCenter mi (snd q) (fst q)) s
                     \<and> 0 \<le> snd q \<and> snd q < gw \<and> 0 \<le> fst q \<and> fst q < gh
                  then u8_store g' (fst q * gw + snd q) 0 else g')" for s
    by (intro ext) (auto simp: setGridCell_def Let_def split: prod.splits)
  show ?thesis
  proof (cases "obj_type obj = ''robot'' \<or> obj_type obj = ''landmark''")
    case True
    then show ?thesis by (auto simp: rasterizeObject_def marks_def)
  next
    case False
    show ?thesis
    proof (cases "boundingBox (obj_shape obj)")
      case None
      with False show ?thesis by (simp add: rasterizeObject_def marks_def)
    next
      case (Some box)
      obtain minX maxX minY maxY where box: "box = (minX, maxX, minY, maxY)"
        by (cases box) auto
      let ?ps = "List.product
                    [snd (worldToGrid mi minX minY)..snd (worldToGrid mi maxX maxY)]
                    [fst (worldToGrid mi minX minY)..fst (worldToGrid mi maxX maxY)]"
      let ?P = "\<lambda>q. isPointInShape (cellCenter mi (snd q) (fst q)) (obj_shape obj)
                     \<and> 0 \<le> snd q \<and> snd q < gw \<and> 0 \<le> fst q \<and> fst q < gh"
      have r: "rasterizeObject mi gw gh g obj =
          fold (\<lambda>q g'. if ?P q then u8_store g' (fst q * gw + snd q) 0 else g') ?ps g"
        using False Some box
        by (simp add: rasterizeObject_def Let_def fold_nested_product step)
      have m: "marks mi gw gh obj k = (\<exists>q\<in>set ?ps. ?P q \<and> fst q * gw + snd q = int k)"
        using False Some box by (simp add: marks_def)
      have "fold (\<lambda>q g'. if ?P q then u8_store g' (fst q * gw + snd q) ((\<lambda>_. 0) q) else g') ?ps g ! k =
          (if \<exists>q\<in>set ?ps. ?P q \<and> fst q * gw + snd q = int k then 0 else g ! k)"
        by (rule fold_store_nth [OF assms]) simp
      then show ?thesis by (simp only: r m)
    qed
  qed
qed

lemma rasterizeObject_commute:
  "rasterizeObject mi gw gh (rasterizeObject mi gw gh g a) b =
   rasterizeObject mi gw gh (rasterizeObject mi gw gh g b) a"
  by (rule nth_equalityI) (simp_all add: rasterizeObject_nth)

lemma fold_rasterize_length [simp]:
  "length (fold (\<lambda>obj g. rasterizeObject mi gw gh g obj) objects g) = length g"
  by (induction objects arbitrary: g) simp_all


lemma fold_rasterize_permute:
  assumes "mset objects' = mset objects"
  shows "fold (\<lambda>obj g. rasterizeObject mi gw gh g obj) objects' =
         fold (\<lambda>obj g. rasterizeObject mi gw gh g obj) objects"
  by (rule fold_multiset_equiv [OF _ assms]) (auto simp: fun_eq_iff rasterizeObject_commute)





subsection \<open>The sample map, evaluated\<close>




subsection \<open>C2: order independence\<close>

text \<open>
  C2. For every map metadata and every object list, rasterizing a permutation of the
  list gives the same result, cell for cell (and the same error when the grid cannot
  be allocated). Two lists are permutations of each other when they have the same
  multiset of elements.
\<close>

theorem order_independence:
  assumes "mset objects' = mset objects"
  shows "rasterize mi objects' = rasterize mi objects"
  unfolding rasterize_def Let_def by (simp only: fold_rasterize_permute [OF assms])

theorem order_independence_witness:
  "mset [cornerRobot, cornerWall] = mset [cornerWall, cornerRobot]
   \<and> rasterize cornerMap [cornerRobot, cornerWall] = rasterize cornerMap [cornerWall, cornerRobot]"
proof -
  have h: "mset [cornerRobot, cornerWall] = mset [cornerWall, cornerRobot]"
    by (simp add: add_mset_commute)
  show ?thesis
    by (intro conjI) (rule h, rule order_independence [OF h])
qed

subsection \<open>C3: robots and landmarks leave the grid free\<close>



subsection \<open>C8: writes outside the grid\<close>



subsection \<open>Shapes lie inside their bounding boxes\<close>















subsection \<open>C1: the bounding-box scan and the full-grid scan\<close>










end
